theory Spec2Isabelle
  imports Main "HOL-Library.Word"
begin

section \<open>Trust-settings enumeration of pal_trust.cpp\<close>

text \<open>
  The file \<^verbatim>\<open>pal_trust.cpp\<close> has three layers: \<^verbatim>\<open>CheckTrustMatch\<close> decides for one
  certificate and one domain whether its trust settings assert a requested result,
  \<^verbatim>\<open>EnumerateTrust\<close> walks the certificates of one domain and appends the matching ones to
  an output array, and the four exported functions run \<^verbatim>\<open>EnumerateTrust\<close> over the user
  domain or over the admin and system domains in turn.

  The Security and CoreFoundation frameworks are not part of the repository. Their
  objects are modelled by the datatype \<open>CFType\<close>, the trust-settings store by a record of
  two functions, and the calls the code makes to the store are recorded in a trace.
\<close>

subsection \<open>Platform types and constants\<close>

text \<open>\<^verbatim>\<open>OSStatus\<close> is a signed 32-bit integer and \<^verbatim>\<open>SecTrustSettingsResult\<close> an unsigned
  32-bit one; the code only compares them for equality.\<close>

type_synonym OSStatus = "32 word"
type_synonym int32_t = "32 word"
type_synonym SecTrustSettingsResult = "32 word"

text \<open>Modelled from the spec: the status codes and result enumerators come from the
  platform headers (MacErrors.h, SecBase.h, SecTrustSettings.h), which the repository
  does not contain; the spec names them success, "no settings present in this domain",
  allocation failure, \<open>TrustRoot\<close> and \<open>Deny\<close>. The numbers are the ones of the headers.\<close>

definition noErr :: OSStatus where
  "noErr = 0"

definition errSecAllocate :: OSStatus where
  "errSecAllocate = - 108"

definition errSecNoTrustSettings :: OSStatus where
  "errSecNoTrustSettings = - 25263"

definition kSecTrustSettingsResultTrustRoot :: SecTrustSettingsResult where
  "kSecTrustSettingsResultTrustRoot = 1"

definition kSecTrustSettingsResultDeny :: SecTrustSettingsResult where
  "kSecTrustSettingsResultDeny = 3"

datatype SecTrustSettingsDomain =
  kSecTrustSettingsDomainUser | kSecTrustSettingsDomainAdmin | kSecTrustSettingsDomainSystem

text \<open>A certificate is an opaque handle; the code never looks inside one.\<close>

type_synonym SecCertificateRef = nat

subsection \<open>CoreFoundation objects\<close>

text \<open>The objects the code can meet inside the arrays the store hands out. A dictionary
  is its list of key/value entries, a number its integer value.\<close>

datatype CFType =
    CFNumber (numberValue: int)
  | CFString string
  | CFData "8 word list"
  | CFDictionary (dictEntries: "(string \<times> CFType) list")
  | SecCertificate (certificateRef: SecCertificateRef)

datatype CFTypeID =
  CFNumberTypeID | CFStringTypeID | CFDataTypeID | CFDictionaryTypeID | SecCertificateTypeID

fun CFGetTypeID :: "CFType \<Rightarrow> CFTypeID" where
  "CFGetTypeID (CFNumber n) = CFNumberTypeID"
| "CFGetTypeID (CFString s) = CFStringTypeID"
| "CFGetTypeID (CFData bs) = CFDataTypeID"
| "CFGetTypeID (CFDictionary d) = CFDictionaryTypeID"
| "CFGetTypeID (SecCertificate c) = SecCertificateTypeID"

text \<open>The reserved key under which a settings dictionary stores its result.\<close>

definition kSecTrustSettingsResult :: string where
  "kSecTrustSettingsResult = ''kSecTrustSettingsResult''"

text \<open>A dictionary holds one value per key: the number of entries counts distinct keys,
  and a lookup returns the value of the key or nothing (the null pointer).\<close>

definition CFDictionaryGetCount :: "(string \<times> CFType) list \<Rightarrow> nat" where
  "CFDictionaryGetCount dict = length (remdups (map fst dict))"

definition CFDictionaryGetValue :: "(string \<times> CFType) list \<Rightarrow> string \<Rightarrow> CFType option" where
  "CFDictionaryGetValue dict key = map_of dict key"

text \<open>\<^verbatim>\<open>CFNumberGetValue(n, kCFNumberSInt32Type, &v)\<close> returns true when the number fits a
  signed 32-bit integer and then stores its 32 bits in \<open>v\<close>; the code uses \<open>v\<close> only in
  that case.\<close>

definition CFNumberGetValue_SInt32 :: "int \<Rightarrow> SecTrustSettingsResult option" where
  "CFNumberGetValue_SInt32 n =
     (if - (2 ^ 31) \<le> n \<and> n < 2 ^ 31 then Some (word_of_int n) else None)"

subsection \<open>The trust-settings store and the trace of calls\<close>

text \<open>Each store function returns its status and the array it stored through the out
  pointer (\<open>None\<close> when the pointer was left null).\<close>

record store =
  SecTrustSettingsCopyTrustSettings ::
    "SecCertificateRef \<Rightarrow> SecTrustSettingsDomain \<Rightarrow> OSStatus \<times> CFType list option"
  SecTrustSettingsCopyCertificates ::
    "SecTrustSettingsDomain \<Rightarrow> OSStatus \<times> CFType list option"

datatype store_call =
    CopyCertificates SecTrustSettingsDomain
  | CopyTrustSettings SecCertificateRef SecTrustSettingsDomain

text \<open>The world outside the functions: the store calls made so far, oldest first, and
  the outcomes of the coming \<^verbatim>\<open>CFArrayCreateMutable\<close> calls (\<open>False\<close> is a failed allocation;
  when the list is used up, allocation succeeds).\<close>

record world =
  calls :: "store_call list"
  allocs :: "bool list"

definition record_call :: "store_call \<Rightarrow> world \<Rightarrow> world" where
  "record_call c w = w\<lparr>calls := calls w @ [c]\<rparr>"

text \<open>A new mutable array is empty; \<open>None\<close> is the null pointer of a failed allocation.\<close>

definition CFArrayCreateMutable :: "world \<Rightarrow> SecCertificateRef list option \<times> world" where
  "CFArrayCreateMutable w =
     (case allocs w of
        [] \<Rightarrow> (Some [], w)
      | b # bs \<Rightarrow> ((if b then Some [] else None), w\<lparr>allocs := bs\<rparr>))"

subsection \<open>CheckTrustMatch\<close>

text \<open>The \<^verbatim>\<open>for\<close> loop of \<^verbatim>\<open>CheckTrustMatch\<close> (lines 32 to 68) over the remaining elements
  of the settings array; the value is \<open>isMatch\<close> when the loop ends. \<open>isMatch\<close> is false
  until the \<^verbatim>\<open>break\<close>, so running off the end of the array gives \<open>False\<close>.\<close>

fun scanSettings :: "CFType list \<Rightarrow> SecTrustSettingsResult \<Rightarrow> bool" where
  "scanSettings [] result = False"
| "scanSettings (obj # rest) result =
     (if CFGetTypeID obj \<noteq> CFDictionaryTypeID then scanSettings rest result
      else
        let dict = dictEntries obj in
        if CFDictionaryGetCount dict > 1 then scanSettings rest result
        else
          (case CFDictionaryGetValue dict kSecTrustSettingsResult of
             None \<Rightarrow> scanSettings rest result
           | Some val \<Rightarrow>
               if CFGetTypeID val = CFNumberTypeID then
                 (case CFNumberGetValue_SInt32 (numberValue val) of
                    Some trustValue \<Rightarrow> (trustValue = result)
                  | None \<Rightarrow> scanSettings rest result)
               else scanSettings rest result))"

text \<open>\<^verbatim>\<open>CheckTrustMatch\<close> returns \<open>isMatch\<close>, the status it stored through \<open>pOSStatus\<close> (never
  null: \<^verbatim>\<open>EnumerateTrust\<close> has checked it) and the world after its store call.\<close>

definition CheckTrustMatch ::
  "store \<Rightarrow> SecCertificateRef \<Rightarrow> SecTrustSettingsDomain \<Rightarrow> SecTrustSettingsResult \<Rightarrow> world
     \<Rightarrow> bool \<times> OSStatus \<times> world" where
  "CheckTrustMatch st cert domain result w =
     (let (status, settings) = SecTrustSettingsCopyTrustSettings st cert domain;
          w1 = record_call (CopyTrustSettings cert domain) w
      in
        if status = noErr \<and> settings \<noteq> None then
          (let arr = the settings; count = length arr in
           if count = 0 then (result = kSecTrustSettingsResultTrustRoot, noErr, w1)
           else (scanSettings arr result, status, w1))
        else (False, status, w1))"

subsection \<open>EnumerateTrust\<close>

text \<open>The two out pointers of the exported functions, which \<^verbatim>\<open>EnumerateTrust\<close> receives
  unchanged. The outer \<open>None\<close> is a null pointer. \<open>pCertsOut\<close> points to an array handle: \<open>Some None\<close>
  is the null handle and \<open>Some (Some cs)\<close> the handle of a mutable array holding \<open>cs\<close>. The
  array is created inside \<^verbatim>\<open>EnumerateTrust\<close> and reachable only through this handle, so it
  is modelled by its contents.\<close>

record out_params =
  pCertsOut :: "SecCertificateRef list option option"
  pOSStatusOut :: "OSStatus option"

text \<open>Line 112 calls \<^verbatim>\<open>CFArrayGetCount\<close> on the certificate array without a null check;
  a store that reports success and leaves the array null makes that call read through a
  null pointer.\<close>

datatype fault = NullDereference

text \<open>The \<^verbatim>\<open>for\<close> loop of \<^verbatim>\<open>EnumerateTrust\<close> (lines 115 to 136) over the remaining elements
  of \<open>certsWithTrusts\<close>, with the contents of \<open>outArray\<close>, the value of \<open>*pOSStatus\<close> and the
  world as loop state.\<close>

fun enumerateCerts ::
  "store \<Rightarrow> SecTrustSettingsDomain \<Rightarrow> SecTrustSettingsResult \<Rightarrow> CFType list
     \<Rightarrow> SecCertificateRef list \<Rightarrow> OSStatus \<Rightarrow> world
     \<Rightarrow> SecCertificateRef list \<times> OSStatus \<times> world" where
  "enumerateCerts st domain result [] outArray status w = (outArray, status, w)"
| "enumerateCerts st domain result (obj # rest) outArray status w =
     (if CFGetTypeID obj \<noteq> SecCertificateTypeID
      then enumerateCerts st domain result rest outArray status w
      else
        let cert = certificateRef obj;
            (isMatch, status', w') = CheckTrustMatch st cert domain result w
        in
          if status' \<noteq> noErr then (outArray, status', w')
          else enumerateCerts st domain result rest
                 (if isMatch then outArray @ [cert] else outArray) status' w')"

text \<open>\<^verbatim>\<open>EnumerateTrust\<close> returns its \<^verbatim>\<open>int32_t\<close> result, the memory behind the two out
  pointers and the world, or the fault of line 112.\<close>

definition EnumerateTrust ::
  "store \<Rightarrow> SecTrustSettingsDomain \<Rightarrow> SecTrustSettingsResult \<Rightarrow> out_params \<Rightarrow> world
     \<Rightarrow> fault + (int32_t \<times> out_params \<times> world)" where
  "EnumerateTrust st domain result mem w =
     (let mem1 = (if pOSStatusOut mem \<noteq> None then mem\<lparr>pOSStatusOut := Some noErr\<rparr> else mem)
      in
        if pCertsOut mem1 = None \<or> pOSStatusOut mem1 = None then Inr (- 1, mem1, w)
        else
          let (outArray, w1) =
                (case the (pCertsOut mem1) of
                   Some arr \<Rightarrow> (Some arr, w)
                 | None \<Rightarrow> CFArrayCreateMutable w);
              mem2 = mem1\<lparr>pCertsOut := Some outArray\<rparr>
          in
            case outArray of
              None \<Rightarrow> Inr (0, mem2\<lparr>pOSStatusOut := Some errSecAllocate\<rparr>, w1)
            | Some arr \<Rightarrow>
                let (status, certsWithTrusts) = SecTrustSettingsCopyCertificates st domain;
                    w2 = record_call (CopyCertificates domain) w1
                in
                  if status = noErr \<and> certsWithTrusts = None then Inl NullDereference
                  else
                    let (arr', status', w3) =
                          (if status = noErr
                           then enumerateCerts st domain result (the certsWithTrusts) arr status w2
                           else if status = errSecNoTrustSettings then (arr, noErr, w2)
                           else (arr, status, w2));
                        ret = (if status' = noErr then 1 else 0);
                        mem3 = mem2\<lparr>pOSStatusOut := Some status'\<rparr>
                    in
                      if ret = 0 \<or> length arr' = 0
                      then Inr (ret, mem3\<lparr>pCertsOut := Some None\<rparr>, w3)
                      else Inr (ret, mem3\<lparr>pCertsOut := Some (Some arr')\<rparr>, w3))"

subsection \<open>The exported functions\<close>

definition AppleCryptoNative_StoreEnumerateUserRoot ::
  "store \<Rightarrow> out_params \<Rightarrow> world \<Rightarrow> fault + (int32_t \<times> out_params \<times> world)" where
  "AppleCryptoNative_StoreEnumerateUserRoot st mem w =
     (let mem1 = (if pCertsOut mem \<noteq> None then mem\<lparr>pCertsOut := Some None\<rparr> else mem)
      in EnumerateTrust st kSecTrustSettingsDomainUser kSecTrustSettingsResultTrustRoot mem1 w)"

definition AppleCryptoNative_StoreEnumerateMachineRoot ::
  "store \<Rightarrow> out_params \<Rightarrow> world \<Rightarrow> fault + (int32_t \<times> out_params \<times> world)" where
  "AppleCryptoNative_StoreEnumerateMachineRoot st mem w =
     (let mem1 = (if pCertsOut mem \<noteq> None then mem\<lparr>pCertsOut := Some None\<rparr> else mem)
      in
        case EnumerateTrust st kSecTrustSettingsDomainAdmin kSecTrustSettingsResultTrustRoot
               mem1 w of
          Inl f \<Rightarrow> Inl f
        | Inr (ret, mem2, w2) \<Rightarrow>
            if ret = 1
            then EnumerateTrust st kSecTrustSettingsDomainSystem
                   kSecTrustSettingsResultTrustRoot mem2 w2
            else Inr (ret, mem2, w2))"

definition AppleCryptoNative_StoreEnumerateUserDisallowed ::
  "store \<Rightarrow> out_params \<Rightarrow> world \<Rightarrow> fault + (int32_t \<times> out_params \<times> world)" where
  "AppleCryptoNative_StoreEnumerateUserDisallowed st mem w =
     (let mem1 = (if pCertsOut mem \<noteq> None then mem\<lparr>pCertsOut := Some None\<rparr> else mem)
      in EnumerateTrust st kSecTrustSettingsDomainUser kSecTrustSettingsResultDeny mem1 w)"

definition AppleCryptoNative_StoreEnumerateMachineDisallowed ::
  "store \<Rightarrow> out_params \<Rightarrow> world \<Rightarrow> fault + (int32_t \<times> out_params \<times> world)" where
  "AppleCryptoNative_StoreEnumerateMachineDisallowed st mem w =
     (let mem1 = (if pCertsOut mem \<noteq> None then mem\<lparr>pCertsOut := Some None\<rparr> else mem)
      in
        case EnumerateTrust st kSecTrustSettingsDomainAdmin kSecTrustSettingsResultDeny
               mem1 w of
          Inl f \<Rightarrow> Inl f
        | Inr (ret, mem2, w2) \<Rightarrow>
            if ret = 1
            then EnumerateTrust st kSecTrustSettingsDomainSystem
                   kSecTrustSettingsResultDeny mem2 w2
            else Inr (ret, mem2, w2))"

subsection \<open>Notions used to state the properties\<close>

text \<open>The outcome a settings record asserts, in the words of the specification: a record
  decides the scan when it is a dictionary with at most one key whose value under the
  reserved key is a number that fits 32 bits; every other record is passed over.\<close>

definition recordOutcome :: "CFType \<Rightarrow> SecTrustSettingsResult option" where
  "recordOutcome obj =
     (case obj of
        CFDictionary dict \<Rightarrow>
          if CFDictionaryGetCount dict > 1 then None
          else (case map_of dict kSecTrustSettingsResult of
                  Some (CFNumber n) \<Rightarrow> CFNumberGetValue_SInt32 n
                | _ \<Rightarrow> None)
      | _ \<Rightarrow> None)"

text \<open>The certificates among the objects of an array, in array order.\<close>

definition certificatesOf :: "CFType list \<Rightarrow> SecCertificateRef list" where
  "certificatesOf objs =
     map certificateRef (filter (\<lambda>obj. CFGetTypeID obj = SecCertificateTypeID) objs)"

text \<open>Whether \<open>CheckTrustMatch\<close> reports a match for a certificate. The world only collects
  the trace, so the answer is read off a run in an empty world.\<close>

definition isTrustMatch ::
  "store \<Rightarrow> SecTrustSettingsDomain \<Rightarrow> SecTrustSettingsResult \<Rightarrow> SecCertificateRef \<Rightarrow> bool" where
  "isTrustMatch st domain result cert =
     fst (CheckTrustMatch st cert domain result \<lparr>calls = [], allocs = []\<rparr>)"

text \<open>The trace of one \<open>CheckTrustMatch\<close> call per certificate.\<close>

definition settingsCalls :: "SecTrustSettingsDomain \<Rightarrow> SecCertificateRef list \<Rightarrow> store_call list" where
  "settingsCalls domain certs = map (\<lambda>c. CopyTrustSettings c domain) certs"

text \<open>The certificates a domain enumerates, the ones among them that match, and whether
  the enumeration of the domain meets no store error: the store either hands out an
  array and answers for each of its certificates with success, or reports that the
  domain has no trust settings.\<close>

definition domainCertificates :: "store \<Rightarrow> SecTrustSettingsDomain \<Rightarrow> SecCertificateRef list" where
  "domainCertificates st domain =
     (case SecTrustSettingsCopyCertificates st domain of
        (status, Some objs) \<Rightarrow> if status = noErr then certificatesOf objs else []
      | (status, None) \<Rightarrow> [])"

definition domainMatches ::
  "store \<Rightarrow> SecTrustSettingsDomain \<Rightarrow> SecTrustSettingsResult \<Rightarrow> SecCertificateRef list" where
  "domainMatches st domain result =
     filter (isTrustMatch st domain result) (domainCertificates st domain)"

definition domainSucceeds :: "store \<Rightarrow> SecTrustSettingsDomain \<Rightarrow> bool" where
  "domainSucceeds st domain =
     (case SecTrustSettingsCopyCertificates st domain of
        (status, certsWithTrusts) \<Rightarrow>
          if status = noErr then
            (case certsWithTrusts of
               None \<Rightarrow> False
             | Some objs \<Rightarrow>
                 list_all (\<lambda>c. fst (SecTrustSettingsCopyTrustSettings st c domain) = noErr)
                   (certificatesOf objs))
          else status = errSecNoTrustSettings)"

text \<open>What the final lines of \<^verbatim>\<open>EnumerateTrust\<close> leave behind \<open>pCertsOut\<close> after a successful
  run that collected \<open>certs\<close>, and the certificates an array handle holds on entry.\<close>

definition publishedArray :: "SecCertificateRef list \<Rightarrow> SecCertificateRef list option" where
  "publishedArray certs = (if certs = [] then None else Some certs)"

definition heldCertificates :: "SecCertificateRef list option \<Rightarrow> SecCertificateRef list" where
  "heldCertificates handle = (case handle of None \<Rightarrow> [] | Some arr \<Rightarrow> arr)"

text \<open>Every coming allocation succeeds.\<close>

definition allocationsSucceed :: "world \<Rightarrow> bool" where
  "allocationsSucceed w = list_all (\<lambda>b. b) (allocs w)"

subsection \<open>A concrete store\<close>

text \<open>Certificate 1 has an empty settings array, 2 a record asserting \<open>Deny\<close> followed by one
  asserting \<open>TrustRoot\<close>, 3 a null settings array, 4 a record with a policy constraint
  next to its result, 5 makes the store fail, and every other certificate has a single
  record asserting \<open>TrustRoot\<close>. The user domain has no trust settings, the admin domain
  lists three certificates and a stray string, and the system domain lists certificate 5
  between two others.\<close>

definition exampleSettings :: "SecCertificateRef \<Rightarrow> OSStatus \<times> CFType list option" where
  "exampleSettings cert =
     (if cert = 1 then (noErr, Some [])
      else if cert = 2 then
        (noErr, Some [CFDictionary [(kSecTrustSettingsResult, CFNumber 3)],
                      CFDictionary [(kSecTrustSettingsResult, CFNumber 1)]])
      else if cert = 3 then (noErr, None)
      else if cert = 4 then
        (noErr, Some [CFDictionary [(kSecTrustSettingsResult, CFNumber 1),
                                    (''kSecTrustSettingsPolicy'', CFString ''sslServer'')]])
      else if cert = 5 then (- 25291, None)
      else (noErr, Some [CFDictionary [(kSecTrustSettingsResult, CFNumber 1)]]))"

definition exampleStore :: store where
  "exampleStore =
     \<lparr>SecTrustSettingsCopyTrustSettings = (\<lambda>cert domain. exampleSettings cert),
      SecTrustSettingsCopyCertificates = (\<lambda>domain.
        case domain of
          kSecTrustSettingsDomainUser \<Rightarrow> (errSecNoTrustSettings, None)
        | kSecTrustSettingsDomainAdmin \<Rightarrow>
            (noErr, Some [SecCertificate 1, CFString ''note'', SecCertificate 2,
                          SecCertificate 6])
        | kSecTrustSettingsDomainSystem \<Rightarrow>
            (noErr, Some [SecCertificate 7, SecCertificate 5, SecCertificate 8]))\<rparr>"

text \<open>The same store with a system domain whose certificates all succeed.\<close>

definition exampleStoreOk :: store where
  "exampleStoreOk =
     exampleStore\<lparr>SecTrustSettingsCopyCertificates :=
       (SecTrustSettingsCopyCertificates exampleStore)
         (kSecTrustSettingsDomainSystem := (noErr, Some [SecCertificate 7, SecCertificate 1]))\<rparr>"

definition emptyWorld :: world where
  "emptyWorld = \<lparr>calls = [], allocs = []\<rparr>"

text \<open>Both out pointers present, over values left there by the caller.\<close>

definition callerMemory :: out_params where
  "callerMemory = \<lparr>pCertsOut = Some (Some [99]), pOSStatusOut = Some 77\<rparr>"

lemmas example_defs = exampleStore_def exampleStoreOk_def exampleSettings_def emptyWorld_def
  callerMemory_def noErr_def errSecNoTrustSettings_def errSecAllocate_def
  kSecTrustSettingsResultTrustRoot_def kSecTrustSettingsResultDeny_def
  kSecTrustSettingsResult_def

lemmas eval_defs = domainSucceeds_def domainMatches_def domainCertificates_def
  certificatesOf_def isTrustMatch_def CheckTrustMatch_def settingsCalls_def
  publishedArray_def heldCertificates_def allocationsSucceed_def recordOutcome_def
  CFDictionaryGetCount_def CFDictionaryGetValue_def CFNumberGetValue_SInt32_def
  CFArrayCreateMutable_def record_call_def

section \<open>Properties\<close>

subsection \<open>Auxiliary facts about the two scans\<close>

lemma scanSettings_Cons:
  "scanSettings (obj # rest) result =
     (case recordOutcome obj of None \<Rightarrow> scanSettings rest result | Some v \<Rightarrow> v = result)"
  by (cases obj; simp add: recordOutcome_def CFDictionaryGetValue_def Let_def
      split: option.splits CFType.splits)

lemma scanSettings_skip_prefix:
  "\<forall>obj \<in> set pre. recordOutcome obj = None \<Longrightarrow>
   scanSettings (pre @ rest) result = scanSettings rest result"
  by (induction pre) (simp_all add: scanSettings_Cons del: scanSettings.simps)

lemma scanSettings_skip_record:
  "recordOutcome obj = None \<Longrightarrow>
   scanSettings (pre @ obj # post) result = scanSettings (pre @ post) result"
  by (induction pre) (simp_all add: scanSettings_Cons del: scanSettings.simps split: option.splits)

lemma recordOutcome_multi_key:
  "1 < CFDictionaryGetCount dict \<Longrightarrow> recordOutcome (CFDictionary dict) = None"
  by (simp add: recordOutcome_def)

lemma CheckTrustMatch_eq:
  "CheckTrustMatch st cert domain result w =
     (isTrustMatch st domain result cert,
      fst (SecTrustSettingsCopyTrustSettings st cert domain),
      record_call (CopyTrustSettings cert domain) w)"
  by (simp add: isTrustMatch_def CheckTrustMatch_def Let_def split: prod.splits)

lemma enumerateCerts_prefix:
  "\<forall>c \<in> set (certificatesOf pre). fst (SecTrustSettingsCopyTrustSettings st c domain) = noErr \<Longrightarrow>
   enumerateCerts st domain result (pre @ rest) outArray noErr w =
   enumerateCerts st domain result rest
     (outArray @ filter (isTrustMatch st domain result) (certificatesOf pre)) noErr
     (w\<lparr>calls := calls w @ settingsCalls domain (certificatesOf pre)\<rparr>)"
proof (induction pre arbitrary: outArray w)
  case Nil
  then show ?case by (simp add: certificatesOf_def settingsCalls_def)
next
  case (Cons obj pre)
  show ?case
  proof (cases "CFGetTypeID obj = SecCertificateTypeID")
    case False
    with Cons show ?thesis by (simp add: certificatesOf_def settingsCalls_def)
  next
    case True
    with Cons.prems have ok: "fst (SecTrustSettingsCopyTrustSettings st (certificateRef obj) domain) = noErr"
      and rest: "\<forall>c \<in> set (certificatesOf pre). fst (SecTrustSettingsCopyTrustSettings st c domain) = noErr"
      by (simp_all add: certificatesOf_def)
    from True ok Cons.IH [OF rest] show ?thesis
      by (simp add: CheckTrustMatch_eq certificatesOf_def settingsCalls_def record_call_def Let_def)
  qed
qed

lemma enumerateCerts_all_ok:
  "\<forall>c \<in> set (certificatesOf objs). fst (SecTrustSettingsCopyTrustSettings st c domain) = noErr \<Longrightarrow>
   enumerateCerts st domain result objs outArray noErr w =
     (outArray @ filter (isTrustMatch st domain result) (certificatesOf objs), noErr,
      w\<lparr>calls := calls w @ settingsCalls domain (certificatesOf objs)\<rparr>)"
  using enumerateCerts_prefix [of objs st domain result "[]" outArray w] by simp

lemma enumerateCerts_fails:
  assumes "\<forall>c \<in> set (certificatesOf pre). fst (SecTrustSettingsCopyTrustSettings st c domain) = noErr"
    and "fst (SecTrustSettingsCopyTrustSettings st cert domain) \<noteq> noErr"
  shows "enumerateCerts st domain result (pre @ SecCertificate cert # post) outArray noErr w =
     (outArray @ filter (isTrustMatch st domain result) (certificatesOf pre),
      fst (SecTrustSettingsCopyTrustSettings st cert domain),
      w\<lparr>calls := calls w @ settingsCalls domain (certificatesOf pre) @ [CopyTrustSettings cert domain]\<rparr>)"
  using assms
  by (simp add: enumerateCerts_prefix CheckTrustMatch_eq record_call_def Let_def)

lemma enumerateCerts_some_fail:
  "\<not> list_all (\<lambda>c. fst (SecTrustSettingsCopyTrustSettings st c domain) = noErr)
       (certificatesOf objs) \<Longrightarrow>
   fst (snd (enumerateCerts st domain result objs outArray status w)) \<noteq> noErr"
proof (induction objs arbitrary: outArray status w)
  case Nil
  then show ?case by (simp add: certificatesOf_def)
next
  case (Cons obj objs)
  show ?case
  proof (cases "CFGetTypeID obj = SecCertificateTypeID")
    case False
    with Cons show ?thesis by (simp add: certificatesOf_def)
  next
    case True
    show ?thesis
    proof (cases "fst (SecTrustSettingsCopyTrustSettings st (certificateRef obj) domain) = noErr")
      case ok: True
      with True Cons.prems have
        "\<not> list_all (\<lambda>c. fst (SecTrustSettingsCopyTrustSettings st c domain) = noErr)
            (certificatesOf objs)"
        by (simp add: certificatesOf_def)
      from Cons.IH [OF this] True ok show ?thesis
        by (simp add: CheckTrustMatch_eq Let_def)
    next
      case False
      with True show ?thesis by (simp add: CheckTrustMatch_eq Let_def)
    qed
  qed
qed

subsection \<open>Auxiliary facts about EnumerateTrust\<close>


lemma calls_create: "calls (snd (CFArrayCreateMutable w)) = calls w"
  by (simp add: CFArrayCreateMutable_def split: list.splits)

lemma allocationsSucceed_create:
  "allocationsSucceed w \<Longrightarrow>
   fst (CFArrayCreateMutable w) = Some [] \<and> allocationsSucceed (snd (CFArrayCreateMutable w))"
  by (auto simp add: allocationsSucceed_def CFArrayCreateMutable_def split: list.splits)

lemma allocationsSucceed_calls:
  "allocationsSucceed (w\<lparr>calls := cs\<rparr>) = allocationsSucceed w"
  by (simp add: allocationsSucceed_def)



lemma EnumerateTrust_invalid:
  "pCertsOut mem = None \<or> pOSStatusOut mem = None \<Longrightarrow>
   EnumerateTrust st domain result mem w =
     Inr (- 1, mem\<lparr>pOSStatusOut := map_option (\<lambda>_. noErr) (pOSStatusOut mem)\<rparr>, w)"
  by (auto simp add: EnumerateTrust_def)

lemma EnumerateTrust_shape:
  assumes "EnumerateTrust st domain result mem w = Inr (ret, mem', w')"
    and "pCertsOut mem \<noteq> None" and "pOSStatusOut mem \<noteq> None"
  shows "(ret = 0 \<or> ret = 1) \<and> pOSStatusOut mem' \<noteq> None
       \<and> (pCertsOut mem' = Some None
          \<or> (ret = 1 \<and> (\<exists>arr. arr \<noteq> [] \<and> pCertsOut mem' = Some (Some arr))))"
  using assms
  by (auto simp add: EnumerateTrust_def Let_def split: prod.splits option.splits if_splits)

lemma EnumerateTrust_out:
  assumes "EnumerateTrust st domain result mem w = Inr (ret, mem', w')"
    and "pCertsOut mem = None \<or> pCertsOut mem = Some None \<or> pOSStatusOut mem \<noteq> None"
  shows "pCertsOut mem' \<noteq> Some (Some [])
       \<and> (ret \<noteq> 1 \<longrightarrow> pCertsOut mem' = None \<or> pCertsOut mem' = Some None)
       \<and> (ret = 1 \<longrightarrow> pCertsOut mem' \<noteq> None \<and> pOSStatusOut mem' \<noteq> None)"
proof (cases "pCertsOut mem = None \<or> pOSStatusOut mem = None")
  case True
  with assms EnumerateTrust_invalid [OF True, of st domain result w] show ?thesis
    by auto
next
  case False
  with EnumerateTrust_shape [OF assms(1)] show ?thesis by auto
qed

lemma EnumerateTrust_success:
  assumes "domainSucceeds st domain"
    and "pCertsOut mem = Some handle" and "pOSStatusOut mem \<noteq> None"
    and "handle = None \<longrightarrow> fst (CFArrayCreateMutable w) \<noteq> None"
  shows "EnumerateTrust st domain result mem w =
     Inr (1,
          mem\<lparr>pOSStatusOut := Some noErr,
              pCertsOut := Some (publishedArray
                (heldCertificates handle @ domainMatches st domain result))\<rparr>,
          (if handle = None then snd (CFArrayCreateMutable w) else w)
            \<lparr>calls := calls w @ CopyCertificates domain
                 # settingsCalls domain (domainCertificates st domain)\<rparr>)"
proof -
  obtain status certsWithTrusts where cc:
    "SecTrustSettingsCopyCertificates st domain = (status, certsWithTrusts)"
    by (cases "SecTrustSettingsCopyCertificates st domain")
  have callsA: "calls (snd (CFArrayCreateMutable w)) = calls w"
    by (simp add: CFArrayCreateMutable_def split: list.splits)
  show ?thesis
  proof (cases "status = noErr")
    case True
    with assms(1) cc obtain objs where objs: "certsWithTrusts = Some objs"
      and ok: "\<forall>c \<in> set (certificatesOf objs).
                 fst (SecTrustSettingsCopyTrustSettings st c domain) = noErr"
      by (auto simp add: domainSucceeds_def list_all_iff split: option.splits)
    from True cc objs have dc: "domainCertificates st domain = certificatesOf objs"
      by (simp add: domainCertificates_def)
    show ?thesis
    proof (cases handle)
      case None
      with assms(4) obtain arr0 where "fst (CFArrayCreateMutable w) = Some arr0" by auto
      then have cr: "CFArrayCreateMutable w = (Some [], snd (CFArrayCreateMutable w))"
        by (auto simp add: CFArrayCreateMutable_def split: list.splits if_splits)
      from None assms(2,3) cc True objs show ?thesis
        apply (simp add: EnumerateTrust_def)
        apply (subst cr)
        apply (simp add: enumerateCerts_all_ok [OF ok] record_call_def callsA dc
            domainMatches_def publishedArray_def heldCertificates_def Let_def)
        done
    next
      case (Some arr)
      with assms(2,3) cc True objs show ?thesis
        by (simp add: EnumerateTrust_def enumerateCerts_all_ok [OF ok] record_call_def dc
            domainMatches_def publishedArray_def heldCertificates_def Let_def)
    qed
  next
    case False
    with assms(1) cc have nts: "status = errSecNoTrustSettings"
      by (simp add: domainSucceeds_def)
    from False cc have dc: "domainCertificates st domain = []"
      by (simp add: domainCertificates_def split: option.splits)
    show ?thesis
    proof (cases handle)
      case None
      with assms(4) obtain arr0 where "fst (CFArrayCreateMutable w) = Some arr0" by auto
      then have cr: "CFArrayCreateMutable w = (Some [], snd (CFArrayCreateMutable w))"
        by (auto simp add: CFArrayCreateMutable_def split: list.splits if_splits)
      from None assms(2,3) cc False nts show ?thesis
        apply (simp add: EnumerateTrust_def)
        apply (subst cr)
        apply (simp add: record_call_def callsA dc settingsCalls_def
            domainMatches_def publishedArray_def heldCertificates_def Let_def)
        done
    next
      case (Some arr)
      with assms(2,3) cc False nts show ?thesis
        by (simp add: EnumerateTrust_def record_call_def dc settingsCalls_def
            domainMatches_def publishedArray_def heldCertificates_def Let_def)
    qed
  qed
qed

lemma EnumerateTrust_failure:
  assumes "\<not> domainSucceeds st domain"
    and "SecTrustSettingsCopyCertificates st domain \<noteq> (noErr, None)"
    and "pCertsOut mem = Some handle" and "pOSStatusOut mem \<noteq> None"
    and "handle = None \<longrightarrow> fst (CFArrayCreateMutable w) \<noteq> None"
  shows "\<exists>mem' w' e. EnumerateTrust st domain result mem w = Inr (0, mem', w')
           \<and> pCertsOut mem' = Some None \<and> pOSStatusOut mem' = Some e \<and> e \<noteq> noErr"
proof -
  obtain status certsWithTrusts where cc:
    "SecTrustSettingsCopyCertificates st domain = (status, certsWithTrusts)"
    by (cases "SecTrustSettingsCopyCertificates st domain")
  obtain arr w1 where arr:
    "(case handle of Some arr \<Rightarrow> (Some arr, w) | None \<Rightarrow> CFArrayCreateMutable w) = (Some arr, w1)"
    using assms(5) by (cases handle; cases "CFArrayCreateMutable w") auto
  show ?thesis
  proof (cases "status = noErr")
    case True
    with assms(2) cc obtain objs where objs: "certsWithTrusts = Some objs" by auto
    with True assms(1) cc have
      "\<not> list_all (\<lambda>c. fst (SecTrustSettingsCopyTrustSettings st c domain) = noErr)
          (certificatesOf objs)"
      by (simp add: domainSucceeds_def)
    note bad = enumerateCerts_some_fail [OF this, of result arr noErr
        "record_call (CopyCertificates domain) w1"]
    obtain arr' status' w3 where loop:
      "enumerateCerts st domain result objs arr noErr
         (record_call (CopyCertificates domain) w1) = (arr', status', w3)"
      by (metis prod_cases3)
    with bad have "status' \<noteq> noErr" by simp
    with assms(3,4) cc True objs arr loop show ?thesis
      by (simp add: EnumerateTrust_def)
  next
    case False
    with assms(1) cc have "status \<noteq> errSecNoTrustSettings"
      by (simp add: domainSucceeds_def)
    with assms(3,4) cc False arr show ?thesis
      by (simp add: EnumerateTrust_def)
  qed
qed

lemma machine_chain_out:
  assumes "(case EnumerateTrust st d1 result mem1 w of
              Inl f \<Rightarrow> Inl f
            | Inr (ret, mem2, w2) \<Rightarrow>
                if ret = 1 then EnumerateTrust st d2 result mem2 w2
                else Inr (ret, mem2, w2)) = Inr (ret, mem', w')"
    and "pCertsOut mem1 = None \<or> pCertsOut mem1 = Some None"
  shows "pCertsOut mem' \<noteq> Some (Some [])
       \<and> (ret \<noteq> 1 \<longrightarrow> pCertsOut mem' = None \<or> pCertsOut mem' = Some None)"
proof (cases "EnumerateTrust st d1 result mem1 w")
  case (Inl f)
  with assms(1) show ?thesis by simp
next
  case (Inr r)
  obtain ret1 mem2 w2 where r: "r = (ret1, mem2, w2)" by (cases r)
  from Inr r have first: "EnumerateTrust st d1 result mem1 w = Inr (ret1, mem2, w2)" by simp
  from assms(2) have pre: "pCertsOut mem1 = None \<or> pCertsOut mem1 = Some None
                          \<or> pOSStatusOut mem1 \<noteq> None" by auto
  note out1 = EnumerateTrust_out [OF first pre]
  show ?thesis
  proof (cases "ret1 = 1")
    case True
    with assms(1) first have second:
      "EnumerateTrust st d2 result mem2 w2 = Inr (ret, mem', w')" by simp
    from True out1 have "pCertsOut mem2 = None \<or> pCertsOut mem2 = Some None
                          \<or> pOSStatusOut mem2 \<noteq> None" by simp
    from EnumerateTrust_out [OF second this] show ?thesis by simp
  next
    case False
    with assms(1) first have "ret = ret1" "mem' = mem2" by simp_all
    with out1 show ?thesis by simp
  qed
qed

lemma machine_chain_success:
  assumes "pCertsOut mem \<noteq> None" and "pOSStatusOut mem \<noteq> None"
    and "allocationsSucceed w"
    and "domainSucceeds st kSecTrustSettingsDomainAdmin"
    and "domainSucceeds st kSecTrustSettingsDomainSystem"
  shows "\<exists>w'. (case EnumerateTrust st kSecTrustSettingsDomainAdmin result
                 (mem\<lparr>pCertsOut := Some None\<rparr>) w of
            Inl f \<Rightarrow> Inl f
          | Inr (ret, mem2, w2) \<Rightarrow>
              if ret = 1 then EnumerateTrust st kSecTrustSettingsDomainSystem result mem2 w2
              else Inr (ret, mem2, w2))
       = Inr (1,
              mem\<lparr>pOSStatusOut := Some noErr,
                  pCertsOut := Some (publishedArray
                    (domainMatches st kSecTrustSettingsDomainAdmin result
                     @ domainMatches st kSecTrustSettingsDomainSystem result))\<rparr>,
              w')
       \<and> calls w' = calls w
           @ CopyCertificates kSecTrustSettingsDomainAdmin
             # settingsCalls kSecTrustSettingsDomainAdmin
                 (domainCertificates st kSecTrustSettingsDomainAdmin)
           @ CopyCertificates kSecTrustSettingsDomainSystem
             # settingsCalls kSecTrustSettingsDomainSystem
                 (domainCertificates st kSecTrustSettingsDomainSystem)"
proof -
  let ?mem1 = "mem\<lparr>pCertsOut := Some None\<rparr>"
  let ?A = "domainMatches st kSecTrustSettingsDomainAdmin result"
  let ?w1 = "(snd (CFArrayCreateMutable w))
            \<lparr>calls := calls w @ CopyCertificates kSecTrustSettingsDomainAdmin
                 # settingsCalls kSecTrustSettingsDomainAdmin
                     (domainCertificates st kSecTrustSettingsDomainAdmin)\<rparr>"
  let ?mem2 = "?mem1\<lparr>pOSStatusOut := Some noErr, pCertsOut := Some (publishedArray ?A)\<rparr>"
  have first: "EnumerateTrust st kSecTrustSettingsDomainAdmin result ?mem1 w
                 = Inr (1, ?mem2, ?w1)"
    using EnumerateTrust_success [OF assms(4), of ?mem1 None w result] assms(2,3)
      allocationsSucceed_create [of w]
    by (simp add: heldCertificates_def)
  have ok1: "allocationsSucceed ?w1"
    using assms(3) allocationsSucceed_create [of w] by (simp add: allocationsSucceed_calls)
  have second: "EnumerateTrust st kSecTrustSettingsDomainSystem result ?mem2 ?w1 =
     Inr (1,
          ?mem2\<lparr>pOSStatusOut := Some noErr,
              pCertsOut := Some (publishedArray
                (heldCertificates (publishedArray ?A)
                   @ domainMatches st kSecTrustSettingsDomainSystem result))\<rparr>,
          (if publishedArray ?A = None then snd (CFArrayCreateMutable ?w1) else ?w1)
            \<lparr>calls := calls ?w1 @ CopyCertificates kSecTrustSettingsDomainSystem
                 # settingsCalls kSecTrustSettingsDomainSystem
                     (domainCertificates st kSecTrustSettingsDomainSystem)\<rparr>)"
    using EnumerateTrust_success [OF assms(5), of ?mem2 "publishedArray ?A" ?w1 result]
      allocationsSucceed_create [OF ok1]
    by simp
  have held: "heldCertificates (publishedArray ?A) = ?A"
    by (simp add: heldCertificates_def publishedArray_def)
  show ?thesis
    apply (rule exI [of _ "(if publishedArray ?A = None then snd (CFArrayCreateMutable ?w1) else ?w1)
            \<lparr>calls := calls ?w1 @ CopyCertificates kSecTrustSettingsDomainSystem
                 # settingsCalls kSecTrustSettingsDomainSystem
                     (domainCertificates st kSecTrustSettingsDomainSystem)\<rparr>"])
    apply (simp only: first sum.case prod.case if_True simp_thms second held)
    apply simp
    done
qed

lemma machine_chain_failure:
  assumes "pCertsOut mem \<noteq> None" and "pOSStatusOut mem \<noteq> None"
    and "fst (CFArrayCreateMutable w) \<noteq> None"
    and "domainSucceeds st kSecTrustSettingsDomainAdmin"
    and "domainMatches st kSecTrustSettingsDomainAdmin result \<noteq> []"
    and "\<not> domainSucceeds st kSecTrustSettingsDomainSystem"
    and "SecTrustSettingsCopyCertificates st kSecTrustSettingsDomainSystem \<noteq> (noErr, None)"
  shows "\<exists>mem' w' e.
        (case EnumerateTrust st kSecTrustSettingsDomainAdmin result
                 (mem\<lparr>pCertsOut := Some None\<rparr>) w of
            Inl f \<Rightarrow> Inl f
          | Inr (ret, mem2, w2) \<Rightarrow>
              if ret = 1 then EnumerateTrust st kSecTrustSettingsDomainSystem result mem2 w2
              else Inr (ret, mem2, w2))
          = Inr (0, mem', w')
        \<and> pCertsOut mem' = Some None \<and> pOSStatusOut mem' = Some e \<and> e \<noteq> noErr"
proof -
  let ?mem1 = "mem\<lparr>pCertsOut := Some None\<rparr>"
  let ?A = "domainMatches st kSecTrustSettingsDomainAdmin result"
  let ?w1 = "(snd (CFArrayCreateMutable w))
            \<lparr>calls := calls w @ CopyCertificates kSecTrustSettingsDomainAdmin
                 # settingsCalls kSecTrustSettingsDomainAdmin
                     (domainCertificates st kSecTrustSettingsDomainAdmin)\<rparr>"
  let ?mem2 = "?mem1\<lparr>pOSStatusOut := Some noErr, pCertsOut := Some (Some ?A)\<rparr>"
  have first: "EnumerateTrust st kSecTrustSettingsDomainAdmin result ?mem1 w
                 = Inr (1, ?mem2, ?w1)"
    using EnumerateTrust_success [OF assms(4), of ?mem1 None w result] assms(2,3,5)
    by (simp add: heldCertificates_def publishedArray_def)
  have "\<exists>mem' w' e. EnumerateTrust st kSecTrustSettingsDomainSystem result ?mem2 ?w1
            = Inr (0, mem', w')
           \<and> pCertsOut mem' = Some None \<and> pOSStatusOut mem' = Some e \<and> e \<noteq> noErr"
    by (rule EnumerateTrust_failure [OF assms(6,7), of ?mem2 "Some ?A"]) simp_all
  then show ?thesis
    by (simp only: first sum.case prod.case if_True simp_thms)
qed

lemma example_admin_succeeds: "domainSucceeds exampleStore kSecTrustSettingsDomainAdmin"
  by (simp add: exampleStore_def exampleSettings_def domainSucceeds_def certificatesOf_def)

lemma example_admin_roots:
  "domainMatches exampleStore kSecTrustSettingsDomainAdmin kSecTrustSettingsResultTrustRoot
     = [1, 6]"
  by (simp add: example_defs eval_defs)

lemma example_system_fails:
  "\<not> domainSucceeds exampleStore kSecTrustSettingsDomainSystem"
  by (simp add: exampleStore_def exampleSettings_def domainSucceeds_def certificatesOf_def
      noErr_def)

subsection \<open>The evaluator\<close>

text \<open>C1: when the store succeeds for a certificate and hands out a settings array that
  is present but empty, \<open>CheckTrustMatch\<close> reports success, and it reports a match exactly
  when the requested result is \<open>TrustRoot\<close>; so the answer is true for \<open>TrustRoot\<close> and
  false for \<open>Deny\<close>.\<close>

theorem CheckTrustMatch_empty_settings:
  assumes "SecTrustSettingsCopyTrustSettings st cert domain = (noErr, Some [])"
  shows "fst (CheckTrustMatch st cert domain result w)
           = (result = kSecTrustSettingsResultTrustRoot)
       \<and> fst (snd (CheckTrustMatch st cert domain result w)) = noErr
       \<and> fst (CheckTrustMatch st cert domain kSecTrustSettingsResultTrustRoot w) = True
       \<and> fst (CheckTrustMatch st cert domain kSecTrustSettingsResultDeny w) = False"
  using assms
  by (simp add: CheckTrustMatch_def kSecTrustSettingsResultTrustRoot_def
      kSecTrustSettingsResultDeny_def)

theorem CheckTrustMatch_empty_settings_witness:
  "SecTrustSettingsCopyTrustSettings exampleStore 1 kSecTrustSettingsDomainAdmin = (noErr, Some [])
   \<and> fst (CheckTrustMatch exampleStore 1 kSecTrustSettingsDomainAdmin
            kSecTrustSettingsResultTrustRoot emptyWorld)
   \<and> \<not> fst (CheckTrustMatch exampleStore 1 kSecTrustSettingsDomainAdmin
            kSecTrustSettingsResultDeny emptyWorld)"
proof -
  have h: "SecTrustSettingsCopyTrustSettings exampleStore 1 kSecTrustSettingsDomainAdmin
             = (noErr, Some [])"
    by (simp add: exampleStore_def exampleSettings_def)
  from CheckTrustMatch_empty_settings [OF h, of kSecTrustSettingsResultDeny emptyWorld] h
  show ?thesis by blast
qed

text \<open>C2: a settings record with more than one key never makes \<open>CheckTrustMatch\<close> report a
  match, whatever result it asserts and whatever result is requested: the scan passes
  over it, so the answer is the one the remaining records give, and no match when it is
  the only record.\<close>

theorem CheckTrustMatch_skips_constrained_record:
  assumes "SecTrustSettingsCopyTrustSettings st cert domain
             = (noErr, Some (pre @ CFDictionary dict # post))"
    and "1 < CFDictionaryGetCount dict"
  shows "fst (CheckTrustMatch st cert domain result w) = scanSettings (pre @ post) result
       \<and> (pre = [] \<and> post = [] \<longrightarrow> \<not> fst (CheckTrustMatch st cert domain result w))"
  using assms
  by (auto simp add: CheckTrustMatch_def scanSettings_skip_record scanSettings_Cons
      recordOutcome_multi_key simp del: scanSettings.simps(2))

theorem CheckTrustMatch_skips_constrained_record_witness:
  "1 < CFDictionaryGetCount [(kSecTrustSettingsResult, CFNumber 1),
                              (''kSecTrustSettingsPolicy'', CFString ''sslServer'')]
   \<and> \<not> fst (CheckTrustMatch exampleStore 4 kSecTrustSettingsDomainAdmin
              kSecTrustSettingsResultTrustRoot emptyWorld)"
proof -
  have h: "SecTrustSettingsCopyTrustSettings exampleStore 4 kSecTrustSettingsDomainAdmin
             = (noErr, Some ([] @ CFDictionary [(kSecTrustSettingsResult, CFNumber 1),
                              (''kSecTrustSettingsPolicy'', CFString ''sslServer'')] # []))"
    by (simp add: exampleStore_def exampleSettings_def)
  have c: "1 < CFDictionaryGetCount [(kSecTrustSettingsResult, CFNumber 1),
                              (''kSecTrustSettingsPolicy'', CFString ''sslServer'')]"
    by (simp add: CFDictionaryGetCount_def kSecTrustSettingsResult_def)
  from CheckTrustMatch_skips_constrained_record [OF h c, of kSecTrustSettingsResultTrustRoot emptyWorld] c
  show ?thesis by simp
qed

text \<open>C3: the scan goes through the settings in order and the first applicable record
  decides. When every record before \<open>record\<close> is passed over and \<open>record\<close> asserts
  \<open>recordResult\<close>, the answer is \<open>recordResult = result\<close> whatever follows in \<open>post\<close>. In
  particular, for a record asserting \<open>Deny\<close> followed by one asserting \<open>TrustRoot\<close>, a
  request for \<open>TrustRoot\<close> is answered with no match.\<close>

theorem CheckTrustMatch_first_applicable_record_wins:
  "(SecTrustSettingsCopyTrustSettings st cert domain = (noErr, Some (pre @ record # post))
      \<and> (\<forall>obj \<in> set pre. recordOutcome obj = None)
      \<and> recordOutcome record = Some recordResult
    \<longrightarrow> fst (CheckTrustMatch st cert domain result w) = (recordResult = result))
   \<and> (SecTrustSettingsCopyTrustSettings st cert domain
        = (noErr, Some [CFDictionary [(kSecTrustSettingsResult, CFNumber 3)],
                        CFDictionary [(kSecTrustSettingsResult, CFNumber 1)]])
    \<longrightarrow> fst (CheckTrustMatch st cert domain kSecTrustSettingsResultTrustRoot w) = False)"
  by (auto simp add: CheckTrustMatch_def scanSettings_skip_prefix scanSettings_Cons
      recordOutcome_def CFDictionaryGetCount_def CFNumberGetValue_SInt32_def
      kSecTrustSettingsResultTrustRoot_def
      simp del: scanSettings.simps)

theorem CheckTrustMatch_first_applicable_record_wins_witness:
  "recordOutcome (CFDictionary [(kSecTrustSettingsResult, CFNumber 3)])
     = Some kSecTrustSettingsResultDeny
   \<and> fst (CheckTrustMatch exampleStore 2 kSecTrustSettingsDomainAdmin
            kSecTrustSettingsResultTrustRoot emptyWorld) = False
   \<and> fst (CheckTrustMatch exampleStore 2 kSecTrustSettingsDomainAdmin
            kSecTrustSettingsResultDeny emptyWorld) = True"
proof -
  have h: "SecTrustSettingsCopyTrustSettings exampleStore 2 kSecTrustSettingsDomainAdmin
             = (noErr, Some ([] @ CFDictionary [(kSecTrustSettingsResult, CFNumber 3)]
                  # [CFDictionary [(kSecTrustSettingsResult, CFNumber 1)]]))"
    by (simp add: exampleStore_def exampleSettings_def)
  have r: "recordOutcome (CFDictionary [(kSecTrustSettingsResult, CFNumber 3)])
     = Some kSecTrustSettingsResultDeny"
    by (simp add: recordOutcome_def CFDictionaryGetCount_def CFNumberGetValue_SInt32_def
        kSecTrustSettingsResultDeny_def)
  from CheckTrustMatch_first_applicable_record_wins [of exampleStore 2 kSecTrustSettingsDomainAdmin "[]"
      "CFDictionary [(kSecTrustSettingsResult, CFNumber 3)]"
      "[CFDictionary [(kSecTrustSettingsResult, CFNumber 1)]]"
      kSecTrustSettingsResultDeny kSecTrustSettingsResultDeny emptyWorld]
    CheckTrustMatch_first_applicable_record_wins [of exampleStore 2 kSecTrustSettingsDomainAdmin "[]"
      "CFDictionary [(kSecTrustSettingsResult, CFNumber 3)]"
      "[CFDictionary [(kSecTrustSettingsResult, CFNumber 1)]]"
      kSecTrustSettingsResultDeny kSecTrustSettingsResultTrustRoot emptyWorld] h r
  show ?thesis by (simp add: kSecTrustSettingsResultDeny_def kSecTrustSettingsResultTrustRoot_def)
qed

text \<open>C10: when the store reports success but leaves the settings array null,
  \<open>CheckTrustMatch\<close> reports no match with success status for every requested result,
  \<open>TrustRoot\<close> included.\<close>

theorem CheckTrustMatch_null_settings:
  assumes "SecTrustSettingsCopyTrustSettings st cert domain = (noErr, None)"
  shows "fst (CheckTrustMatch st cert domain result w) = False
       \<and> fst (snd (CheckTrustMatch st cert domain result w)) = noErr
       \<and> fst (CheckTrustMatch st cert domain kSecTrustSettingsResultTrustRoot w) = False"
  using assms by (simp add: CheckTrustMatch_def)

theorem CheckTrustMatch_null_settings_witness:
  "SecTrustSettingsCopyTrustSettings exampleStore 3 kSecTrustSettingsDomainAdmin = (noErr, None)
   \<and> \<not> fst (CheckTrustMatch exampleStore 3 kSecTrustSettingsDomainAdmin
            kSecTrustSettingsResultTrustRoot emptyWorld)
   \<and> fst (snd (CheckTrustMatch exampleStore 3 kSecTrustSettingsDomainAdmin
            kSecTrustSettingsResultTrustRoot emptyWorld)) = noErr"
proof -
  have h: "SecTrustSettingsCopyTrustSettings exampleStore 3 kSecTrustSettingsDomainAdmin
             = (noErr, None)"
    by (simp add: exampleStore_def exampleSettings_def)
  from CheckTrustMatch_null_settings [OF h, of kSecTrustSettingsResultTrustRoot emptyWorld] h
  show ?thesis by simp
qed

subsection \<open>The domain enumerator\<close>



text \<open>C8: when the store fails with status \<open>e\<close> for the settings of a certificate, after
  succeeding for the certificates before it, the loop stops there: it has the matches of
  the earlier certificates only, the status is \<open>e\<close>, and the trace ends with the single
  settings call for the failing certificate, so nothing in \<open>post\<close> is evaluated or
  appended. \<^verbatim>\<open>EnumerateTrust\<close> then returns 0 with \<open>e\<close> as the status.\<close>

theorem EnumerateTrust_aborts_on_settings_error:
  assumes "SecTrustSettingsCopyCertificates st domain
             = (noErr, Some (pre @ SecCertificate cert # post))"
    and "\<forall>c \<in> set (certificatesOf pre).
           fst (SecTrustSettingsCopyTrustSettings st c domain) = noErr"
    and "fst (SecTrustSettingsCopyTrustSettings st cert domain) = e" and "e \<noteq> noErr"
    and "pCertsOut mem = Some handle" and "pOSStatusOut mem \<noteq> None"
    and "handle = None \<longrightarrow> fst (CFArrayCreateMutable w) \<noteq> None"
  shows "enumerateCerts st domain result (pre @ SecCertificate cert # post) outArray noErr w
           = (outArray @ filter (isTrustMatch st domain result) (certificatesOf pre), e,
              w\<lparr>calls := calls w @ settingsCalls domain (certificatesOf pre)
                   @ [CopyTrustSettings cert domain]\<rparr>)
       \<and> (case EnumerateTrust st domain result mem w of
            Inl f \<Rightarrow> False
          | Inr (ret, mem', w') \<Rightarrow>
              ret = 0 \<and> pOSStatusOut mem' = Some e \<and> pCertsOut mem' = Some None
              \<and> calls w' = calls w @ CopyCertificates domain
                   # settingsCalls domain (certificatesOf pre)
                   @ [CopyTrustSettings cert domain])"
proof -
  from assms(3,4) have bad: "fst (SecTrustSettingsCopyTrustSettings st cert domain) \<noteq> noErr"
    by simp
  note loop = enumerateCerts_fails [OF assms(2) bad, of result post, unfolded assms(3)]
  have "case EnumerateTrust st domain result mem w of
            Inl f \<Rightarrow> False
          | Inr (ret, mem', w') \<Rightarrow>
              ret = 0 \<and> pOSStatusOut mem' = Some e \<and> pCertsOut mem' = Some None
              \<and> calls w' = calls w @ CopyCertificates domain
                   # settingsCalls domain (certificatesOf pre)
                   @ [CopyTrustSettings cert domain]"
  proof (cases handle)
    case None
    with assms(7) obtain arr0 where "fst (CFArrayCreateMutable w) = Some arr0" by auto
    then have cr: "CFArrayCreateMutable w = (Some [], snd (CFArrayCreateMutable w))"
      by (auto simp add: CFArrayCreateMutable_def split: list.splits if_splits)
    from None assms(1,4,5,6) show ?thesis
      apply (simp add: EnumerateTrust_def)
      apply (subst cr)
      apply (simp add: loop record_call_def calls_create Let_def)
      done
  next
    case (Some arr)
    with assms(1,4,5,6) show ?thesis
      by (simp add: EnumerateTrust_def loop record_call_def Let_def)
  qed
  with loop show ?thesis by simp
qed

theorem EnumerateTrust_aborts_on_settings_error_witness:
  "fst (SecTrustSettingsCopyTrustSettings exampleStore 5 kSecTrustSettingsDomainSystem)
     = - 25291
   \<and> (case EnumerateTrust exampleStore kSecTrustSettingsDomainSystem
             kSecTrustSettingsResultTrustRoot callerMemory emptyWorld of
         Inl f \<Rightarrow> False
       | Inr (ret, mem', w') \<Rightarrow>
           ret = 0 \<and> pOSStatusOut mem' = Some (- 25291) \<and> pCertsOut mem' = Some None
           \<and> calls w' = [CopyCertificates kSecTrustSettingsDomainSystem,
                          CopyTrustSettings 7 kSecTrustSettingsDomainSystem,
                          CopyTrustSettings 5 kSecTrustSettingsDomainSystem])"
proof -
  have cc: "SecTrustSettingsCopyCertificates exampleStore kSecTrustSettingsDomainSystem
             = (noErr, Some ([SecCertificate 7] @ SecCertificate 5 # [SecCertificate 8]))"
    by (simp add: exampleStore_def)
  have pre: "\<forall>c \<in> set (certificatesOf [SecCertificate 7]).
           fst (SecTrustSettingsCopyTrustSettings exampleStore c kSecTrustSettingsDomainSystem)
             = noErr"
    by (simp add: exampleStore_def exampleSettings_def certificatesOf_def)
  have e: "fst (SecTrustSettingsCopyTrustSettings exampleStore 5 kSecTrustSettingsDomainSystem)
     = - 25291"
    by (simp add: exampleStore_def exampleSettings_def)
  have ne: "(- 25291 :: OSStatus) \<noteq> noErr" by (simp add: noErr_def)
  have p: "pCertsOut callerMemory = Some (Some [99])" "pOSStatusOut callerMemory \<noteq> None"
    "Some [99::nat] = None \<longrightarrow> fst (CFArrayCreateMutable emptyWorld) \<noteq> None"
    by (simp_all add: callerMemory_def)
  from EnumerateTrust_aborts_on_settings_error [OF cc pre e ne p, where result = kSecTrustSettingsResultTrustRoot,
      THEN conjunct2] e
  show ?thesis
    by (auto simp add: certificatesOf_def settingsCalls_def emptyWorld_def
        split: sum.splits)
qed

subsection \<open>The exported functions\<close>

text \<open>C9: when one of the two out pointers is null, each exported function returns -1
  before any store access: the world is as it was, with no store call and no
  allocation. The memory behind the pointer that is present is not left as the caller
  had it: the resets that precede the check have been written, so a present \<open>pCertsOut\<close>
  holds the null handle and a present \<open>pOSStatusOut\<close> holds \<open>noErr\<close>. Nothing else is
  written.\<close>

theorem exported_invalid_argument:
  assumes "pCertsOut mem = None \<or> pOSStatusOut mem = None"
    and "f \<in> {AppleCryptoNative_StoreEnumerateUserRoot,
              AppleCryptoNative_StoreEnumerateMachineRoot,
              AppleCryptoNative_StoreEnumerateUserDisallowed,
              AppleCryptoNative_StoreEnumerateMachineDisallowed}"
  shows "f st mem w =
     Inr (- 1,
          mem\<lparr>pCertsOut := map_option (\<lambda>_. None) (pCertsOut mem),
              pOSStatusOut := map_option (\<lambda>_. noErr) (pOSStatusOut mem)\<rparr>,
          w)"
proof -
  let ?mem1 = "if pCertsOut mem \<noteq> None then mem\<lparr>pCertsOut := Some None\<rparr> else mem"
  from assms(1) have inv: "pCertsOut ?mem1 = None \<or> pOSStatusOut ?mem1 = None" by auto
  have step: "EnumerateTrust st domain result ?mem1 w =
     Inr (- 1,
          mem\<lparr>pCertsOut := map_option (\<lambda>_. None) (pCertsOut mem),
              pOSStatusOut := map_option (\<lambda>_. noErr) (pOSStatusOut mem)\<rparr>,
          w)" for domain result
    unfolding EnumerateTrust_invalid [OF inv] by (cases "pCertsOut mem") auto
  from assms(2) show ?thesis
    apply (elim insertE emptyE)
       apply (simp_all only: AppleCryptoNative_StoreEnumerateUserRoot_def
        AppleCryptoNative_StoreEnumerateMachineRoot_def
        AppleCryptoNative_StoreEnumerateUserDisallowed_def
        AppleCryptoNative_StoreEnumerateMachineDisallowed_def Let_def step)
     apply simp_all
    done
qed

theorem exported_invalid_argument_witness:
  "pOSStatusOut (callerMemory\<lparr>pOSStatusOut := None\<rparr>) = None
   \<and> AppleCryptoNative_StoreEnumerateMachineDisallowed exampleStore
       (callerMemory\<lparr>pOSStatusOut := None\<rparr>) emptyWorld
     = Inr (- 1, \<lparr>pCertsOut = Some None, pOSStatusOut = None\<rparr>, emptyWorld)"
  using exported_invalid_argument [of "callerMemory\<lparr>pOSStatusOut := None\<rparr>"
      AppleCryptoNative_StoreEnumerateMachineDisallowed exampleStore emptyWorld]
  by (simp add: callerMemory_def)

text \<open>The caller's memory does change on that path. With a null \<open>pOSStatusOut\<close> the
  array handle the caller had behind \<open>pCertsOut\<close> is overwritten with the null handle
  (lines 165 and 166), and with a null \<open>pCertsOut\<close> the caller's status 77 is overwritten
  with \<open>noErr\<close> (lines 83 and 84); so the function does not return with the memory
  untouched.\<close>

theorem exported_invalid_argument_counterexample:
  "AppleCryptoNative_StoreEnumerateUserRoot exampleStore
       (callerMemory\<lparr>pOSStatusOut := None\<rparr>) emptyWorld
     = Inr (- 1, \<lparr>pCertsOut = Some None, pOSStatusOut = None\<rparr>, emptyWorld)
   \<and> pCertsOut (callerMemory\<lparr>pOSStatusOut := None\<rparr>) = Some (Some [99])
   \<and> AppleCryptoNative_StoreEnumerateUserRoot exampleStore
       (callerMemory\<lparr>pCertsOut := None\<rparr>) emptyWorld
     = Inr (- 1, \<lparr>pCertsOut = None, pOSStatusOut = Some 0\<rparr>, emptyWorld)
   \<and> pOSStatusOut (callerMemory\<lparr>pCertsOut := None\<rparr>) = Some 77
   \<and> AppleCryptoNative_StoreEnumerateUserRoot exampleStore
       (callerMemory\<lparr>pOSStatusOut := None\<rparr>) emptyWorld
     \<noteq> Inr (- 1, callerMemory\<lparr>pOSStatusOut := None\<rparr>, emptyWorld)"
  by (simp add: AppleCryptoNative_StoreEnumerateUserRoot_def EnumerateTrust_def
      callerMemory_def noErr_def)

text \<open>C5: whenever an exported function returns, \<open>pCertsOut\<close> never holds the handle of an
  empty array, and it holds no array at all unless the return value is 1. So a run that
  fails and a run that succeeds without matches both leave the null handle, and only
  the return value and the status tell them apart.\<close>

theorem exported_absent_unless_nonempty_success:
  assumes "f \<in> {AppleCryptoNative_StoreEnumerateUserRoot,
              AppleCryptoNative_StoreEnumerateMachineRoot,
              AppleCryptoNative_StoreEnumerateUserDisallowed,
              AppleCryptoNative_StoreEnumerateMachineDisallowed}"
    and "f st mem w = Inr (ret, mem', w')"
  shows "pCertsOut mem' \<noteq> Some (Some [])
       \<and> (ret \<noteq> 1 \<longrightarrow> pCertsOut mem' = None \<or> pCertsOut mem' = Some None)"
proof -
  let ?mem1 = "if pCertsOut mem \<noteq> None then mem\<lparr>pCertsOut := Some None\<rparr> else mem"
  have reset: "pCertsOut ?mem1 = None \<or> pCertsOut ?mem1 = Some None" by simp
  then have reset': "pCertsOut ?mem1 = None \<or> pCertsOut ?mem1 = Some None
                     \<or> pOSStatusOut ?mem1 \<noteq> None" by blast
  from assms(1) consider
      (ur) "f = AppleCryptoNative_StoreEnumerateUserRoot"
    | (mr) "f = AppleCryptoNative_StoreEnumerateMachineRoot"
    | (ud) "f = AppleCryptoNative_StoreEnumerateUserDisallowed"
    | (md) "f = AppleCryptoNative_StoreEnumerateMachineDisallowed" by auto
  then show ?thesis
  proof cases
    case ur
    with assms(2) have "EnumerateTrust st kSecTrustSettingsDomainUser
        kSecTrustSettingsResultTrustRoot ?mem1 w = Inr (ret, mem', w')"
      by (simp add: AppleCryptoNative_StoreEnumerateUserRoot_def Let_def)
    from EnumerateTrust_out [OF this reset'] show ?thesis by simp
  next
    case ud
    with assms(2) have "EnumerateTrust st kSecTrustSettingsDomainUser
        kSecTrustSettingsResultDeny ?mem1 w = Inr (ret, mem', w')"
      by (simp add: AppleCryptoNative_StoreEnumerateUserDisallowed_def Let_def)
    from EnumerateTrust_out [OF this reset'] show ?thesis by simp
  next
    case mr
    with assms(2) have "(case EnumerateTrust st kSecTrustSettingsDomainAdmin
              kSecTrustSettingsResultTrustRoot ?mem1 w of
              Inl f \<Rightarrow> Inl f
            | Inr (ret, mem2, w2) \<Rightarrow>
                if ret = 1 then EnumerateTrust st kSecTrustSettingsDomainSystem
                                  kSecTrustSettingsResultTrustRoot mem2 w2
                else Inr (ret, mem2, w2)) = Inr (ret, mem', w')"
      by (simp add: AppleCryptoNative_StoreEnumerateMachineRoot_def Let_def)
    from machine_chain_out [OF this reset] show ?thesis .
  next
    case md
    with assms(2) have "(case EnumerateTrust st kSecTrustSettingsDomainAdmin
              kSecTrustSettingsResultDeny ?mem1 w of
              Inl f \<Rightarrow> Inl f
            | Inr (ret, mem2, w2) \<Rightarrow>
                if ret = 1 then EnumerateTrust st kSecTrustSettingsDomainSystem
                                  kSecTrustSettingsResultDeny mem2 w2
                else Inr (ret, mem2, w2)) = Inr (ret, mem', w')"
      by (simp add: AppleCryptoNative_StoreEnumerateMachineDisallowed_def Let_def)
    from machine_chain_out [OF this reset] show ?thesis .
  qed
qed

theorem exported_absent_unless_nonempty_success_witness:
  "AppleCryptoNative_StoreEnumerateUserRoot exampleStore callerMemory emptyWorld
     = Inr (1, \<lparr>pCertsOut = Some None, pOSStatusOut = Some noErr\<rparr>,
            \<lparr>calls = [CopyCertificates kSecTrustSettingsDomainUser], allocs = []\<rparr>)
   \<and> pCertsOut \<lparr>pCertsOut = Some None, pOSStatusOut = Some noErr\<rparr> \<noteq> Some (Some [])"
proof -
  have run: "AppleCryptoNative_StoreEnumerateUserRoot exampleStore callerMemory emptyWorld
     = Inr (1, \<lparr>pCertsOut = Some None, pOSStatusOut = Some noErr\<rparr>,
            \<lparr>calls = [CopyCertificates kSecTrustSettingsDomainUser], allocs = []\<rparr>)"
    by (simp add: AppleCryptoNative_StoreEnumerateUserRoot_def EnumerateTrust_def
        example_defs CFArrayCreateMutable_def record_call_def)
  from exported_absent_unless_nonempty_success [of AppleCryptoNative_StoreEnumerateUserRoot exampleStore callerMemory emptyWorld,
      OF _ run] run
  show ?thesis by simp
qed

text \<open>C4: for both machine-scope functions, when the admin domain is enumerated without
  error and has matches, and the store then fails for the system domain, the function
  returns 0, \<open>pCertsOut\<close> holds the null handle, and the status is the error: the admin
  matches are not handed out.\<close>

theorem MachineEnumeration_discards_on_system_failure:
  assumes "pCertsOut mem \<noteq> None" and "pOSStatusOut mem \<noteq> None"
    and "fst (CFArrayCreateMutable w) \<noteq> None"
    and "(f, result) \<in> {(AppleCryptoNative_StoreEnumerateMachineRoot,
                           kSecTrustSettingsResultTrustRoot),
                         (AppleCryptoNative_StoreEnumerateMachineDisallowed,
                           kSecTrustSettingsResultDeny)}"
    and "domainSucceeds st kSecTrustSettingsDomainAdmin"
    and "domainMatches st kSecTrustSettingsDomainAdmin result \<noteq> []"
    and "\<not> domainSucceeds st kSecTrustSettingsDomainSystem"
    and "SecTrustSettingsCopyCertificates st kSecTrustSettingsDomainSystem \<noteq> (noErr, None)"
  shows "\<exists>mem' w' e. f st mem w = Inr (0, mem', w')
           \<and> pCertsOut mem' = Some None \<and> pOSStatusOut mem' = Some e \<and> e \<noteq> noErr"
  using machine_chain_failure [OF assms(1,2,3,5,6,7,8)] assms(1,4)
  by (auto simp add: AppleCryptoNative_StoreEnumerateMachineRoot_def
      AppleCryptoNative_StoreEnumerateMachineDisallowed_def Let_def simp del: One_nat_def)

theorem MachineEnumeration_discards_on_system_failure_witness:
  "domainSucceeds exampleStore kSecTrustSettingsDomainAdmin
   \<and> domainMatches exampleStore kSecTrustSettingsDomainAdmin kSecTrustSettingsResultTrustRoot
       = [1, 6]
   \<and> \<not> domainSucceeds exampleStore kSecTrustSettingsDomainSystem
   \<and> (\<exists>mem' w' e.
        AppleCryptoNative_StoreEnumerateMachineRoot exampleStore callerMemory emptyWorld
          = Inr (0, mem', w')
        \<and> pCertsOut mem' = Some None \<and> pOSStatusOut mem' = Some e \<and> e \<noteq> noErr)"
proof -
  have "\<exists>mem' w' e.
        AppleCryptoNative_StoreEnumerateMachineRoot exampleStore callerMemory emptyWorld
          = Inr (0, mem', w')
        \<and> pCertsOut mem' = Some None \<and> pOSStatusOut mem' = Some e \<and> e \<noteq> noErr"
    by (rule MachineEnumeration_discards_on_system_failure [where result = kSecTrustSettingsResultTrustRoot])
      (simp_all add: example_admin_succeeds example_admin_roots example_system_fails,
        simp_all add: callerMemory_def emptyWorld_def CFArrayCreateMutable_def exampleStore_def)
  with example_admin_succeeds example_admin_roots example_system_fails
  show ?thesis by simp
qed

text \<open>C6: for both machine-scope functions, when both domains are enumerated without
  error, the function returns 1 and the array behind \<open>pCertsOut\<close> lists the matches of
  the admin domain in store order followed by the matches of the system domain in store
  order, nothing moved and nothing removed (the null handle when there is no match at
  all). The trace shows the admin domain enumerated to its end before the system
  domain is asked.\<close>

theorem MachineEnumeration_admin_then_system:
  assumes "pCertsOut mem \<noteq> None" and "pOSStatusOut mem \<noteq> None"
    and "allocationsSucceed w"
    and "(f, result) \<in> {(AppleCryptoNative_StoreEnumerateMachineRoot,
                           kSecTrustSettingsResultTrustRoot),
                         (AppleCryptoNative_StoreEnumerateMachineDisallowed,
                           kSecTrustSettingsResultDeny)}"
    and "domainSucceeds st kSecTrustSettingsDomainAdmin"
    and "domainSucceeds st kSecTrustSettingsDomainSystem"
  shows "\<exists>w'. f st mem w =
           Inr (1,
                mem\<lparr>pOSStatusOut := Some noErr,
                    pCertsOut := Some (publishedArray
                      (domainMatches st kSecTrustSettingsDomainAdmin result
                       @ domainMatches st kSecTrustSettingsDomainSystem result))\<rparr>,
                w')
         \<and> calls w' = calls w
             @ CopyCertificates kSecTrustSettingsDomainAdmin
               # settingsCalls kSecTrustSettingsDomainAdmin
                   (domainCertificates st kSecTrustSettingsDomainAdmin)
             @ CopyCertificates kSecTrustSettingsDomainSystem
               # settingsCalls kSecTrustSettingsDomainSystem
                   (domainCertificates st kSecTrustSettingsDomainSystem)"
  using machine_chain_success [OF assms(1,2,3,5,6)] assms(1,4)
  by (auto simp add: AppleCryptoNative_StoreEnumerateMachineRoot_def
      AppleCryptoNative_StoreEnumerateMachineDisallowed_def Let_def simp del: One_nat_def)

theorem MachineEnumeration_admin_then_system_witness:
  "domainSucceeds exampleStoreOk kSecTrustSettingsDomainAdmin
   \<and> domainSucceeds exampleStoreOk kSecTrustSettingsDomainSystem
   \<and> (\<exists>w'. AppleCryptoNative_StoreEnumerateMachineRoot exampleStoreOk callerMemory emptyWorld
              = Inr (1, \<lparr>pCertsOut = Some (Some [1, 6, 7, 1]), pOSStatusOut = Some noErr\<rparr>, w')
            \<and> calls w' =
                [CopyCertificates kSecTrustSettingsDomainAdmin,
                 CopyTrustSettings 1 kSecTrustSettingsDomainAdmin,
                 CopyTrustSettings 2 kSecTrustSettingsDomainAdmin,
                 CopyTrustSettings 6 kSecTrustSettingsDomainAdmin,
                 CopyCertificates kSecTrustSettingsDomainSystem,
                 CopyTrustSettings 7 kSecTrustSettingsDomainSystem,
                 CopyTrustSettings 1 kSecTrustSettingsDomainSystem])"
proof -
  have a: "domainSucceeds exampleStoreOk kSecTrustSettingsDomainAdmin"
    by (simp add: example_defs eval_defs)
  have s: "domainSucceeds exampleStoreOk kSecTrustSettingsDomainSystem"
    by (simp add: example_defs eval_defs)
  have ma: "domainMatches exampleStoreOk kSecTrustSettingsDomainAdmin
              kSecTrustSettingsResultTrustRoot = [1, 6]"
    by (simp add: example_defs eval_defs)
  have ms: "domainMatches exampleStoreOk kSecTrustSettingsDomainSystem
              kSecTrustSettingsResultTrustRoot = [7, 1]"
    by (simp add: example_defs eval_defs)
  have ca: "domainCertificates exampleStoreOk kSecTrustSettingsDomainAdmin = [1, 2, 6]"
    by (simp add: example_defs eval_defs)
  have cs: "domainCertificates exampleStoreOk kSecTrustSettingsDomainSystem = [7, 1]"
    by (simp add: example_defs eval_defs)
  have p: "pCertsOut callerMemory \<noteq> None" "pOSStatusOut callerMemory \<noteq> None"
    "allocationsSucceed emptyWorld"
    by (simp_all add: callerMemory_def emptyWorld_def allocationsSucceed_def)
  from MachineEnumeration_admin_then_system [OF p _ a s, of AppleCryptoNative_StoreEnumerateMachineRoot
      kSecTrustSettingsResultTrustRoot] a s
  show ?thesis
    by (simp add: ma ms ca cs publishedArray_def settingsCalls_def callerMemory_def
        emptyWorld_def)
qed

end
